theory Spec2Isabelle
  imports Main "HOL-Library.Sublist"
begin

section \<open>Constants of kirin.go\<close>

text \<open>
  The top level key of the etcd cluster under which all LSAT proxy data is stored, and the
  delimiter of etcd keys (kirin.go, lines 27 to 35).
\<close>

definition topLevelKey :: string where
  "topLevelKey = ''lsat/proxy''"

definition etcdKeyDelimeter :: string where
  "etcdKeyDelimeter = ''/''"

section \<open>Errors and configuration\<close>

text \<open>
  A Go \<open>error\<close> is modelled by its message. A function returning \<open>(T, error)\<close> returns
  \<open>error + T\<close>, with \<open>Inl\<close> for the non-nil error; a function returning only \<open>error\<close>
  returns \<open>error option\<close>, with \<open>None\<close> for nil.
\<close>

type_synonym error = string

text \<open>
  The \<open>config\<close> struct is declared outside kirin.go; the records below hold the fields that
  kirin.go reads. The port numbers are unsigned in the source (they are converted with
  \<open>int(...)\<close> before use). The authenticator settings are only passed on to the challenger
  and are kept opaque.

  Modelled from the spec: the type of a configured service is declared outside kirin.go; a
  service carries what the spec's service descriptor (section 3) and configuration
  (section 6) give for it: its name, backend address, capabilities and price.
\<close>

record etcdConfig =
  Host :: string
  User :: string
  Password :: string

record torConfig =
  Control :: string
  ListenPort :: nat
  VirtualPort :: nat
  V2 :: bool
  V3 :: bool

record service =
  Name :: string
  Address :: string
  Capabilities :: "string list"
  Price :: int

record config =
  ListenAddr :: string
  ServerName :: string
  AutoCert :: bool
  StaticRoot :: string
  DebugLevel :: string
  Etcd :: etcdConfig
  Authenticator :: string
  Tor :: torConfig
  Services :: "service list"

section \<open>Formatting and paths\<close>

text \<open>
  \<open>decimal\<close> is the \<open>%d\<close> verb of \<open>fmt.Sprintf\<close> on an unsigned number.
  \<open>filepathJoin\<close> is \<open>filepath.Join\<close> on two path elements: an empty element is
  ignored, the others are joined by the separator. The cleaning of the result is not
  modelled, so the elements are taken to be clean.
\<close>

definition digitChar :: "nat \<Rightarrow> char" where
  "digitChar d = ''0123456789'' ! d"

function decimal :: "nat \<Rightarrow> string" where
  "decimal n = (if n < 10 then [digitChar n] else decimal (n div 10) @ [digitChar (n mod 10)])"
  by pat_completeness auto
termination
  by (relation "measure (\<lambda>n. n)") auto

declare decimal.simps [simp del]

definition filepathJoin :: "string \<Rightarrow> string \<Rightarrow> string" where
  "filepathJoin dir file =
     (if dir = [] then file else if file = [] then dir else dir @ ''/'' @ file)"

section \<open>The invoice request generator\<close>

text \<open>
  The fields of \<open>lnrpc.Invoice\<close> that the generator sets. \<open>genInvoiceReq\<close> is the closure of
  \<open>start\<close> (kirin.go, lines 73 to 78): it takes no argument and always returns the same
  invoice request.
\<close>

record invoice =
  Memo :: string
  Value :: int

definition genInvoiceReq :: "unit \<Rightarrow> error + invoice" where
  "genInvoiceReq = (\<lambda>_. Inr \<lparr>Memo = ''LSAT'', Value = 1\<rparr>)"

section \<open>The components built by createProxy\<close>

text \<open>
  The etcd client is the handle \<open>clientv3.New\<close> returns for a client configuration.
\<close>

record clientv3Config =
  Endpoints :: "string list"
  DialTimeout :: nat
  Username :: string
  ClientPassword :: string

text \<open>
  Modelled from the spec: the challenger, the secret store, the onion store, the static
  service limiter, the minter, the authenticator and the proxy are constructed in kirin.go
  (\<open>NewLndChallenger\<close>, \<open>newSecretStore\<close>, \<open>newOnionStore\<close>, \<open>newStaticServiceLimiter\<close>,
  \<open>mint.New\<close>, \<open>auth.NewLsatAuthenticator\<close>, \<open>proxy.New\<close>) but declared elsewhere. Each is
  the record of what its constructor is given. The challenger holds the lnd settings and the
  invoice request generator; \<open>mint.Config\<close> has the three fields kirin.go sets.
\<close>

record challenger =
  lndSettings :: string
  genInvoice :: "unit \<Rightarrow> error + invoice"

record secretStore =
  secretsClient :: clientv3Config

record onionStore =
  onionClient :: clientv3Config

record minter =
  Challenger :: challenger
  Secrets :: secretStore
  ServiceLimiter :: "service list"

record lsatAuthenticator =
  authMinter :: minter

record proxy =
  proxyAuthenticator :: lsatAuthenticator
  proxyServices :: "service list"
  proxyStaticRoot :: string

section \<open>The world outside the process\<close>

text \<open>
  Everything \<open>start\<close> asks of its environment, as the answers the environment gives:
  the file system, the YAML parser, the log rotator, the etcd dial, the lnd connection, the
  proxy constructor's validation, certificate generation, the Tor controller and the two
  servers. \<open>Some err\<close> and \<open>Inl err\<close> are failures. For a server, named by its address
  (and its certificate and key file), the answer is the error with which \<open>ListenAndServeTLS\<close> or \<open>ListenAndServe\<close> returns (it cannot listen, or it
  stops serving), and \<open>None\<close> when the call does not return because the server keeps serving.
  \<open>plainErrorFirst\<close> is the scheduler's answer when both servers have an error to send on
  the error channel: whether the second server's error is received first.
\<close>

datatype statResult = StatOk | StatNotExist | StatError

record world =
  readFile :: "string \<Rightarrow> error + string"
  unmarshal :: "string \<Rightarrow> error + config"
  osStat :: "string \<Rightarrow> statResult"
  initLogRotator :: "string \<Rightarrow> error option"
  parseAndSetDebugLevels :: "string \<Rightarrow> error option"
  clientv3New :: "clientv3Config \<Rightarrow> error option"
  lndConnect :: "string \<Rightarrow> error option"
  proxyNew :: "service list \<Rightarrow> string \<Rightarrow> error option"
  genCertPair :: "string \<Rightarrow> string \<Rightarrow> error option"
  controllerStart :: "string \<Rightarrow> error option"
  controllerAddOnion :: "bool \<Rightarrow> error option"
  listenAndServeTLS :: "string \<Rightarrow> string \<Rightarrow> string \<Rightarrow> error option"
  listenAndServe :: "string \<Rightarrow> error option"
  plainErrorFirst :: bool

text \<open>
  The constants of the package that are declared outside kirin.go.
\<close>

record defaults =
  kirinDataDir :: string
  defaultConfigFilename :: string
  defaultTLSKeyFilename :: string
  defaultTLSCertFilename :: string
  defaultLogFilename :: string
  defaultLogLevel :: string

section \<open>Loading the configuration\<close>

text \<open>
  \<open>getConfig\<close> (kirin.go, lines 198 to 215) reads the file, parses it as YAML into a fresh
  \<open>config\<close> and then checks that the listen address is set. \<open>readFile\<close> stands for
  \<open>ioutil.ReadFile\<close> and \<open>unmarshal\<close> for \<open>yaml.Unmarshal\<close> into the zero \<open>config\<close>.
\<close>

definition getConfig :: "world \<Rightarrow> string \<Rightarrow> error + config" where
  "getConfig w configFile =
     (case readFile w configFile of
        Inl err \<Rightarrow> Inl err
      | Inr b \<Rightarrow>
          (case unmarshal w b of
             Inl err \<Rightarrow> Inl err
           | Inr cfg \<Rightarrow>
               if ListenAddr cfg = [] then Inl ''missing listen address for server''
               else Inr cfg))"

section \<open>createProxy\<close>

text \<open>
  Modelled from the spec: the constructors that kirin.go calls and that are declared
  elsewhere. Each stores what it is given. \<open>NewLndChallenger\<close> and \<open>proxy.New\<close> return an
  error in kirin.go; whether they fail is the world's answer.
\<close>

definition NewLndChallenger ::
  "world \<Rightarrow> string \<Rightarrow> (unit \<Rightarrow> error + invoice) \<Rightarrow> error + challenger" where
  "NewLndChallenger w authCfg gen =
     (case lndConnect w authCfg of
        Some err \<Rightarrow> Inl err
      | None \<Rightarrow> Inr \<lparr>lndSettings = authCfg, genInvoice = gen\<rparr>)"

definition newSecretStore :: "clientv3Config \<Rightarrow> secretStore" where
  "newSecretStore client = \<lparr>secretsClient = client\<rparr>"

definition newOnionStore :: "clientv3Config \<Rightarrow> onionStore" where
  "newOnionStore client = \<lparr>onionClient = client\<rparr>"

definition newStaticServiceLimiter :: "service list \<Rightarrow> service list" where
  "newStaticServiceLimiter services = services"

definition NewLsatAuthenticator :: "minter \<Rightarrow> lsatAuthenticator" where
  "NewLsatAuthenticator m = \<lparr>authMinter = m\<rparr>"

definition proxyNewOf ::
  "world \<Rightarrow> lsatAuthenticator \<Rightarrow> service list \<Rightarrow> string \<Rightarrow> error + proxy" where
  "proxyNewOf w a services root =
     (case proxyNew w services root of
        Some err \<Rightarrow> Inl err
      | None \<Rightarrow> Inr \<lparr>proxyAuthenticator = a, proxyServices = services, proxyStaticRoot = root\<rparr>)"

text \<open>
  \<open>createProxy\<close> (kirin.go, lines 274 to 288): the challenger gets the authenticator
  settings and the invoice request generator, the minter gets the challenger, the secret store
  on the etcd client and the static service limiter on the configured services.
\<close>

definition createProxy ::
  "world \<Rightarrow> config \<Rightarrow> (unit \<Rightarrow> error + invoice) \<Rightarrow> clientv3Config \<Rightarrow> error + proxy" where
  "createProxy w cfg gen etcdClient =
     (case NewLndChallenger w (Authenticator cfg) gen of
        Inl err \<Rightarrow> Inl err
      | Inr ch \<Rightarrow>
          (let m = \<lparr>Challenger = ch,
                    Secrets = newSecretStore etcdClient,
                    ServiceLimiter = newStaticServiceLimiter (Services cfg)\<rparr>;
               a = NewLsatAuthenticator m
           in proxyNewOf w a (Services cfg) (StaticRoot cfg)))"

section \<open>Servers and what start does\<close>

text \<open>
  An \<open>http.Server\<close> with the fields \<open>start\<close> sets. The TLS configuration, when set, is
  autocert's \<open>GetCertificate\<close> for the whitelisted host. A handler is the proxy's
  \<open>ServeHTTP\<close>, that handler wrapped by \<open>h2c.NewHandler\<close> (HTTP/2 without TLS), or
  autocert's HTTP handler.
\<close>

datatype handler = HandlerFunc proxy | H2CHandler handler | AutocertHTTPHandler string

record httpServer =
  Addr :: string
  Handler :: handler
  TLSConfig :: "string option"

text \<open>
  What \<open>start\<close> brings about outside, in order: a goroutine that calls
  \<open>ListenAndServeTLS\<close> with a certificate and a key file, a goroutine that calls
  \<open>ListenAndServe\<close> (no TLS), a generated certificate pair, a started Tor controller and a
  created onion service (\<open>True\<close> for v3, \<open>False\<close> for v2) with its virtual port, target
  ports and store. A call that fails leaves no event. Log output and the deferred clean-up
  are not modelled.
\<close>

datatype event =
    GoListenAndServeTLS httpServer string string
  | GoListenAndServe httpServer
  | GenCertPair string string
  | ControllerStart string
  | AddOnion bool nat "nat list" onionStore

text \<open>
  \<open>start\<close> returns an error before it waits on the error channel (\<open>Failed\<close>), or it
  waits: then it returns the first error that a server's goroutine sends (\<open>Stopped\<close>), and
  it blocks for as long as no server returns (\<open>Serving\<close>).
\<close>

datatype outcome = Failed error | Stopped error | Serving

text \<open>\<open>fileExists\<close> (kirin.go, lines 187 to 194): false only when \<open>os.Stat\<close> reports that
  the name does not exist.\<close>

definition fileExists :: "world \<Rightarrow> string \<Rightarrow> bool" where
  "fileExists w name = (osStat w name \<noteq> StatNotExist)"

text \<open>
  \<open>setupLogging\<close> (kirin.go, lines 218 to 232) sets the default debug level in the
  configuration it is given, then initialises the log rotator and parses the level.
\<close>

definition setupLogging :: "world \<Rightarrow> defaults \<Rightarrow> config \<Rightarrow> error option \<times> config" where
  "setupLogging w d cfg =
     (let cfg' = (if DebugLevel cfg = [] then cfg\<lparr>DebugLevel := defaultLogLevel d\<rparr> else cfg);
          logFile = filepathJoin (kirinDataDir d) (defaultLogFilename d)
      in case initLogRotator w logFile of
           Some err \<Rightarrow> (Some err, cfg')
         | None \<Rightarrow> (parseAndSetDebugLevels w (DebugLevel cfg'), cfg'))"

text \<open>
  \<open>initTorListener\<close> (kirin.go, lines 237 to 271) starts the controller and creates the
  requested onion services, v2 first. It returns the events up to its return, and the error
  if one occurred.
\<close>

definition initTorListener :: "world \<Rightarrow> config \<Rightarrow> clientv3Config \<Rightarrow> event list \<times> error option" where
  "initTorListener w cfg etcd =
     (let virtualPort = VirtualPort (Tor cfg);
          targetPorts = [ListenPort (Tor cfg)];
          store = newOnionStore etcd
      in case controllerStart w (Control (Tor cfg)) of
           Some err \<Rightarrow> ([], Some err)
         | None \<Rightarrow>
      (let started = [ControllerStart (Control (Tor cfg))]
       in case (if V2 (Tor cfg) then controllerAddOnion w False else None) of
           Some err \<Rightarrow> (started, Some err)
         | None \<Rightarrow>
      (let withV2 = started @
             (if V2 (Tor cfg) then [AddOnion False virtualPort targetPorts store] else [])
       in case (if V3 (Tor cfg) then controllerAddOnion w True else None) of
           Some err \<Rightarrow> (withV2, Some err)
         | None \<Rightarrow>
             (withV2 @
                (if V3 (Tor cfg) then [AddOnion True virtualPort targetPorts store] else []),
              None))))"

text \<open>
  The certificate switch of \<open>start\<close> (kirin.go, lines 90 to 141): with autocert the server
  name is required, a plain HTTP server for the ACME challenge is started on \<open>:http\<close> and the
  HTTPS server gets autocert's TLS configuration, the file names staying empty (an error of
  the ACME server is only logged); otherwise a self-signed pair is generated unless a
  certificate or a key file exists. It returns the events, the HTTPS server, the certificate
  file and the key file.
\<close>

definition tlsCertificates ::
  "world \<Rightarrow> defaults \<Rightarrow> config \<Rightarrow> httpServer \<Rightarrow> error + event list \<times> httpServer \<times> string \<times> string" where
  "tlsCertificates w d cfg httpsServer =
     (if AutoCert cfg then
        (if ServerName cfg = []
         then Inl ''servername option is required for secure operation''
         else Inr ([GoListenAndServe \<lparr>Addr = '':http'',
                       Handler = AutocertHTTPHandler (ServerName cfg), TLSConfig = None\<rparr>],
                   httpsServer\<lparr>TLSConfig := Some (ServerName cfg)\<rparr>, [], []))
      else
        (let tlsKeyFile = filepathJoin (kirinDataDir d) (defaultTLSKeyFilename d);
             tlsCertFile = filepathJoin (kirinDataDir d) (defaultTLSCertFilename d)
         in if \<not> fileExists w tlsCertFile \<and> \<not> fileExists w tlsKeyFile
            then (case genCertPair w tlsCertFile tlsKeyFile of
                    Some err \<Rightarrow> Inl err
                  | None \<Rightarrow> Inr ([GenCertPair tlsCertFile tlsKeyFile], httpsServer,
                                 tlsCertFile, tlsKeyFile))
            else Inr ([], httpsServer, tlsCertFile, tlsKeyFile)))"

text \<open>
  What the goroutine of the HTTPS server sends on the error channel (kirin.go, lines 152 to
  154): the error with which \<open>ListenAndServeTLS\<close> returns. The world answers for listening
  and serving. Besides, \<open>net/http\<close> opens the certificate and the key file unless the TLS
  configuration supplies the certificates, so the call returns an error when one of the two
  files does not exist. \<open>start\<close> generates the files only when both are absent, so at this
  point a file is missing exactly when one of the two existed and the other did not.
\<close>

definition serveTLSResult :: "world \<Rightarrow> httpServer \<Rightarrow> string \<Rightarrow> string \<Rightarrow> error option" where
  "serveTLSResult w srv certFile keyFile =
     (case listenAndServeTLS w (Addr srv) certFile keyFile of
        Some err \<Rightarrow> Some err
      | None \<Rightarrow>
          if TLSConfig srv = None \<and> fileExists w certFile \<noteq> fileExists w keyFile
          then Some (''open '' @ (if fileExists w certFile then keyFile else certFile)
                       @ '': no such file or directory'')
          else None)"

text \<open>
  The receive \<open><-errChan\<close> (kirin.go, line 182), given what the HTTPS server and the
  second server send: the first error to arrive, none while both keep serving.
\<close>

definition recvErrChan :: "world \<Rightarrow> error option \<Rightarrow> error option \<Rightarrow> outcome" where
  "recvErrChan w tlsErr plainErr =
     (case (tlsErr, plainErr) of
        (None, None) \<Rightarrow> Serving
      | (Some e, None) \<Rightarrow> Stopped e
      | (None, Some e) \<Rightarrow> Stopped e
      | (Some e1, Some e2) \<Rightarrow> if plainErrorFirst w then Stopped e2 else Stopped e1)"

text \<open>
  The Tor block of \<open>start\<close> (kirin.go, lines 163 to 180). When a v2 or v3 onion service is
  configured, the Tor listener is initialised; its error is returned by \<open>start\<close> (\<open>Inl\<close>).
  If it succeeded, a second server is started by \<open>ListenAndServe\<close> on
  \<open>localhost:<ListenPort>\<close> with the h2c handler, and the block gives what that server's
  goroutine sends on the error channel (\<open>Inr\<close>).
\<close>

definition torBlock ::
  "world \<Rightarrow> config \<Rightarrow> clientv3Config \<Rightarrow> handler \<Rightarrow> event list \<times> (error + error option)" where
  "torBlock w cfg etcdClient h =
     (if V2 (Tor cfg) \<or> V3 (Tor cfg) then
        (case initTorListener w cfg etcdClient of
           (evs, Some err) \<Rightarrow> (evs, Inl err)
         | (evs, None) \<Rightarrow>
             (let httpServer = \<lparr>Addr = ''localhost:'' @ decimal (ListenPort (Tor cfg)),
                                  Handler = H2CHandler h, TLSConfig = None\<rparr>
              in (evs @ [GoListenAndServe httpServer],
                  Inr (listenAndServe w (Addr httpServer)))))
      else ([], Inr None))"

text \<open>
  \<open>start\<close> (kirin.go, lines 49 to 183): load the configuration, set up logging, dial etcd,
  create the proxy, prepare the certificates, start the HTTPS server, run the Tor block and
  wait on the error channel.
\<close>

definition start :: "world \<Rightarrow> defaults \<Rightarrow> event list \<times> outcome" where
  "start w d =
     (let configFile = filepathJoin (kirinDataDir d) (defaultConfigFilename d)
      in case getConfig w configFile of
           Inl err \<Rightarrow> ([], Failed (''unable to parse config file: '' @ err))
         | Inr cfg0 \<Rightarrow>
      (case setupLogging w d cfg0 of
           (Some err, cfg) \<Rightarrow> ([], Failed (''unable to set up logging: '' @ err))
         | (None, cfg) \<Rightarrow>
      (let etcdClient = \<lparr>Endpoints = [Host (Etcd cfg)], DialTimeout = 5,
                          Username = User (Etcd cfg), ClientPassword = Password (Etcd cfg)\<rparr>
       in case clientv3New w etcdClient of
           Some err \<Rightarrow> ([], Failed (''unable to connect to etcd: '' @ err))
         | None \<Rightarrow>
      (case createProxy w cfg genInvoiceReq etcdClient of
           Inl err \<Rightarrow> ([], Failed err)
         | Inr servicesProxy \<Rightarrow>
      (let h = HandlerFunc servicesProxy;
           httpsServer = \<lparr>Addr = ListenAddr cfg, Handler = h, TLSConfig = None\<rparr>
       in case tlsCertificates w d cfg httpsServer of
           Inl err \<Rightarrow> ([], Failed err)
         | Inr (evs, httpsServer', tlsCertFile, tlsKeyFile) \<Rightarrow>
      (let serving = evs @ [GoListenAndServeTLS httpsServer' tlsCertFile tlsKeyFile];
           tlsErr = serveTLSResult w httpsServer' tlsCertFile tlsKeyFile
       in case torBlock w cfg etcdClient h of
            (torEvs, Inl err) \<Rightarrow> (serving @ torEvs, Failed err)
          | (torEvs, Inr plainErr) \<Rightarrow>
              (serving @ torEvs, recvErrChan w tlsErr plainErr)))))))"







section \<open>The keys of the durable state\<close>

text \<open>
  Modelled from the spec: the key layout of the secret store and of the onion store
  (section 6, persisted layout). Both stores are built on the etcd client in kirin.go
  (\<open>newSecretStore\<close> in \<open>createProxy\<close>, \<open>newOnionStore\<close> in \<open>initTorListener\<close>) but
  their code is declared elsewhere. A durable record is a root key, named by its id, or an
  onion service, named by its service id. Its key is the path
  \<open><namespace>/rootkeys/<id>\<close> or \<open><namespace>/onion/<service-id>\<close>, where the namespace
  is \<open>topLevelKey\<close> and the elements are joined by \<open>etcdKeyDelimeter\<close>.
\<close>

datatype durableRecord = RootKeyRecord nat | OnionServiceRecord string

text \<open>\<open>stringsJoin\<close> is Go's \<open>strings.Join\<close>; \<open>splitOn\<close> is \<open>strings.Split\<close> on a
  one-character separator.\<close>

fun stringsJoin :: "string list \<Rightarrow> string \<Rightarrow> string" where
  "stringsJoin [] sep = []"
| "stringsJoin [x] sep = x"
| "stringsJoin (x # y # xs) sep = x @ sep @ stringsJoin (y # xs) sep"

fun splitOn :: "char \<Rightarrow> string \<Rightarrow> string list" where
  "splitOn c [] = [[]]"
| "splitOn c (x # xs) =
     (if x = c then [] # splitOn c xs
      else (case splitOn c xs of
              [] \<Rightarrow> [[x]]
            | seg # segs \<Rightarrow> (x # seg) # segs))"

definition recordPath :: "durableRecord \<Rightarrow> string list" where
  "recordPath r =
     (case r of
        RootKeyRecord i \<Rightarrow> [topLevelKey, ''rootkeys'', decimal i]
      | OnionServiceRecord sid \<Rightarrow> [topLevelKey, ''onion'', sid])"

definition recordKey :: "durableRecord \<Rightarrow> string" where
  "recordKey r = stringsJoin (recordPath r) etcdKeyDelimeter"

section \<open>A concrete deployment\<close>

text \<open>
  One priced service, a v3 onion service on port 8082, self-signed certificates, and a world
  in which every outside call succeeds. The configuration leaves the etcd host, the server
  name and the debug level empty.
\<close>

definition exampleService :: service where
  "exampleService = \<lparr>Name = ''metered-api'', Address = ''127.0.0.1:9000'',
                      Capabilities = [''call''], Price = 100\<rparr>"

definition exampleConfig :: config where
  "exampleConfig =
     \<lparr>ListenAddr = ''localhost:8081'', ServerName = [], AutoCert = False, StaticRoot = [],
      DebugLevel = [], Etcd = \<lparr>Host = [], User = [], Password = []\<rparr>,
      Authenticator = ''lnd'',
      Tor = \<lparr>Control = ''localhost:9051'', ListenPort = 8082, VirtualPort = 8082,
             V2 = False, V3 = True\<rparr>,
      Services = [exampleService]\<rparr>"

definition exampleDefaults :: defaults where
  "exampleDefaults =
     \<lparr>kirinDataDir = ''.kirin'', defaultConfigFilename = ''kirin.yaml'',
      defaultTLSKeyFilename = ''tls.key'', defaultTLSCertFilename = ''tls.cert'',
      defaultLogFilename = ''kirin.log'', defaultLogLevel = ''info''\<rparr>"

definition exampleWorld :: world where
  "exampleWorld =
     \<lparr>readFile = (\<lambda>name. if name = ''.kirin/kirin.yaml''
                          then Inr ''listenaddr: localhost:8081''
                          else Inl ''no such file or directory''),
      unmarshal = (\<lambda>b. if b = ''listenaddr: localhost:8081'' then Inr exampleConfig
                        else Inl ''yaml: unmarshal errors''),
      osStat = (\<lambda>name. StatNotExist),
      initLogRotator = (\<lambda>name. None),
      parseAndSetDebugLevels = (\<lambda>level. None),
      clientv3New = (\<lambda>c. None),
      lndConnect = (\<lambda>a. None),
      proxyNew = (\<lambda>services root. None),
      genCertPair = (\<lambda>certFile keyFile. None),
      controllerStart = (\<lambda>control. None),
      controllerAddOnion = (\<lambda>v3. None),
      listenAndServeTLS = (\<lambda>addr certFile keyFile. None),
      listenAndServe = (\<lambda>addr. None),
      plainErrorFirst = False\<rparr>"


text \<open>The same world in which the certificate file exists and the key file does not.\<close>

definition certOnlyWorld :: world where
  "certOnlyWorld =
     exampleWorld\<lparr>osStat := (\<lambda>name. if name = ''.kirin/tls.cert'' then StatOk
                                     else StatNotExist)\<rparr>"

text \<open>The etcd client and the proxy that \<open>start\<close> builds in this deployment.\<close>

definition exampleEtcd :: clientv3Config where
  "exampleEtcd = \<lparr>Endpoints = [[]], DialTimeout = 5, Username = [], ClientPassword = []\<rparr>"

definition exampleProxy :: proxy where
  "exampleProxy =
     \<lparr>proxyAuthenticator =
        \<lparr>authMinter =
           \<lparr>Challenger = \<lparr>lndSettings = ''lnd'', genInvoice = genInvoiceReq\<rparr>,
            Secrets = \<lparr>secretsClient = exampleEtcd\<rparr>,
            ServiceLimiter = [exampleService]\<rparr>\<rparr>,
      proxyServices = [exampleService],
      proxyStaticRoot = []\<rparr>"

section \<open>Properties of getConfig\<close>

lemma getConfig_read_error:
  "readFile w f = Inl e \<Longrightarrow> getConfig w f = Inl e"
  by (simp add: getConfig_def)

lemma getConfig_parse_error:
  "readFile w f = Inr b \<Longrightarrow> unmarshal w b = Inl e \<Longrightarrow> getConfig w f = Inl e"
  by (simp add: getConfig_def)

lemma getConfig_parsed:
  "readFile w f = Inr b \<Longrightarrow> unmarshal w b = Inr cfg \<Longrightarrow>
   getConfig w f =
     (if ListenAddr cfg = [] then Inl ''missing listen address for server'' else Inr cfg)"
  by (simp add: getConfig_def)

text \<open>
  C10. \<open>getConfig\<close> returns an error exactly when the file cannot be read, the YAML cannot
  be parsed, or the parsed listen address is empty. In every other case it returns the parsed
  configuration as it is, whatever its other fields hold: no other field is checked.
\<close>

theorem getConfig_error_iff:
  "(isl (getConfig w f) \<longleftrightarrow>
      isl (readFile w f)
      \<or> (\<exists>b. readFile w f = Inr b \<and> isl (unmarshal w b))
      \<or> (\<exists>b cfg. readFile w f = Inr b \<and> unmarshal w b = Inr cfg \<and> ListenAddr cfg = []))
   \<and> (\<forall>b cfg. readFile w f = Inr b \<and> unmarshal w b = Inr cfg \<and> ListenAddr cfg \<noteq> []
         \<longrightarrow> getConfig w f = Inr cfg)"
proof (cases "readFile w f")
  case (Inl e)
  then show ?thesis by (simp add: getConfig_read_error)
next
  case (Inr b)
  note rd = this
  show ?thesis
  proof (cases "unmarshal w b")
    case (Inl e)
    with rd show ?thesis by (simp add: getConfig_parse_error)
  next
    case (Inr cfg)
    with rd show ?thesis by (simp add: getConfig_parsed)
  qed
qed

lemma exampleWorld_fields:
  "readFile exampleWorld =
     (\<lambda>name. if name = ''.kirin/kirin.yaml'' then Inr ''listenaddr: localhost:8081''
             else Inl ''no such file or directory'')"
  "unmarshal exampleWorld =
     (\<lambda>b. if b = ''listenaddr: localhost:8081'' then Inr exampleConfig
          else Inl ''yaml: unmarshal errors'')"
  "osStat exampleWorld = (\<lambda>name. StatNotExist)"
  "initLogRotator exampleWorld = (\<lambda>name. None)"
  "parseAndSetDebugLevels exampleWorld = (\<lambda>level. None)"
  "clientv3New exampleWorld = (\<lambda>c. None)"
  "lndConnect exampleWorld = (\<lambda>a. None)"
  "proxyNew exampleWorld = (\<lambda>services root. None)"
  "genCertPair exampleWorld = (\<lambda>certFile keyFile. None)"
  "controllerStart exampleWorld = (\<lambda>control. None)"
  "controllerAddOnion exampleWorld = (\<lambda>v3. None)"
  "listenAndServeTLS exampleWorld = (\<lambda>addr certFile keyFile. None)"
  "listenAndServe exampleWorld = (\<lambda>addr. None)"
  "plainErrorFirst exampleWorld = False"
  by (simp_all add: exampleWorld_def)

lemma exampleConfig_fields:
  "ListenAddr exampleConfig = ''localhost:8081''"
  "ServerName exampleConfig = []"
  "AutoCert exampleConfig = False"
  "StaticRoot exampleConfig = []"
  "DebugLevel exampleConfig = []"
  "Etcd exampleConfig = \<lparr>Host = [], User = [], Password = []\<rparr>"
  "Authenticator exampleConfig = ''lnd''"
  "Tor exampleConfig = \<lparr>Control = ''localhost:9051'', ListenPort = 8082, VirtualPort = 8082,
                         V2 = False, V3 = True\<rparr>"
  "Services exampleConfig = [exampleService]"
  by (simp_all add: exampleConfig_def)


theorem getConfig_error_iff_witness:
  "readFile exampleWorld ''.kirin/kirin.yaml'' = Inr ''listenaddr: localhost:8081''
   \<and> unmarshal exampleWorld ''listenaddr: localhost:8081'' = Inr exampleConfig
   \<and> ListenAddr exampleConfig \<noteq> []
   \<and> Host (Etcd exampleConfig) = []
   \<and> getConfig exampleWorld ''.kirin/kirin.yaml'' = Inr exampleConfig
   \<and> isl (readFile exampleWorld ''missing.yaml'')
   \<and> isl (getConfig exampleWorld ''missing.yaml'')"
proof -
  have rd: "readFile exampleWorld ''.kirin/kirin.yaml'' = Inr ''listenaddr: localhost:8081''"
    by (simp add: exampleWorld_fields)
  have um: "unmarshal exampleWorld ''listenaddr: localhost:8081'' = Inr exampleConfig"
    by (simp add: exampleWorld_fields)
  have la: "ListenAddr exampleConfig \<noteq> []" "Host (Etcd exampleConfig) = []"
    by (simp_all add: exampleConfig_fields)
  have miss: "isl (readFile exampleWorld ''missing.yaml'')"
    by (simp add: exampleWorld_fields)
  have ok: "getConfig exampleWorld ''.kirin/kirin.yaml'' = Inr exampleConfig"
    using getConfig_error_iff [of exampleWorld "''.kirin/kirin.yaml''"] rd um la by blast
  have bad: "isl (getConfig exampleWorld ''missing.yaml'')"
    using getConfig_error_iff [of exampleWorld "''missing.yaml''"] miss by blast
  show ?thesis using rd um la miss ok bad by simp
qed

section \<open>Properties of start\<close>

















lemma certOnlyWorld_fields:
  "readFile certOnlyWorld = readFile exampleWorld"
  "unmarshal certOnlyWorld = unmarshal exampleWorld"
  "osStat certOnlyWorld =
     (\<lambda>name. if name = ''.kirin/tls.cert'' then StatOk else StatNotExist)"
  "initLogRotator certOnlyWorld = initLogRotator exampleWorld"
  "parseAndSetDebugLevels certOnlyWorld = parseAndSetDebugLevels exampleWorld"
  "clientv3New certOnlyWorld = clientv3New exampleWorld"
  "lndConnect certOnlyWorld = lndConnect exampleWorld"
  "proxyNew certOnlyWorld = proxyNew exampleWorld"
  "genCertPair certOnlyWorld = genCertPair exampleWorld"
  "controllerStart certOnlyWorld = controllerStart exampleWorld"
  "controllerAddOnion certOnlyWorld = controllerAddOnion exampleWorld"
  "listenAndServeTLS certOnlyWorld = listenAndServeTLS exampleWorld"
  "listenAndServe certOnlyWorld = listenAndServe exampleWorld"
  "plainErrorFirst certOnlyWorld = plainErrorFirst exampleWorld"
  by (simp_all add: certOnlyWorld_def)


lemma certOnly_getConfig: "getConfig certOnlyWorld ''.kirin/kirin.yaml'' = Inr exampleConfig"
  by (simp add: getConfig_def certOnlyWorld_fields exampleWorld_fields exampleConfig_fields)

lemmas start_unfold = start_def filepathJoin_def exampleDefaults_def
      setupLogging_def exampleWorld_fields exampleConfig_fields createProxy_def
      NewLndChallenger_def proxyNewOf_def tlsCertificates_def fileExists_def torBlock_def
      initTorListener_def Let_def newSecretStore_def newOnionStore_def
      newStaticServiceLimiter_def NewLsatAuthenticator_def exampleProxy_def exampleEtcd_def
      serveTLSResult_def recvErrChan_def



text \<open>With the certificate file present and the key file absent no pair is generated, both
  servers are started, and \<open>start\<close> returns the error of the HTTPS server from the error
  channel.\<close>

lemma certOnly_start:
  "start certOnlyWorld exampleDefaults =
     ([GoListenAndServeTLS
         \<lparr>Addr = ''localhost:8081'', Handler = HandlerFunc exampleProxy, TLSConfig = None\<rparr>
         ''.kirin/tls.cert'' ''.kirin/tls.key'',
       ControllerStart ''localhost:9051'',
       AddOnion True 8082 [8082] \<lparr>onionClient = exampleEtcd\<rparr>,
       GoListenAndServe
         \<lparr>Addr = ''localhost:8082'', Handler = H2CHandler (HandlerFunc exampleProxy),
          TLSConfig = None\<rparr>],
      Stopped ''open .kirin/tls.key: no such file or directory'')"
  by (simp add: start_unfold certOnly_getConfig certOnlyWorld_fields decimal.simps digitChar_def)





section \<open>Properties of the keys\<close>

lemma digitChar_not_slash: "d < 10 \<Longrightarrow> digitChar d \<noteq> CHR ''/''"
proof -
  assume "d < 10"
  then have "d \<in> {0, 1, 2, 3, 4, 5, 6, 7, 8, 9}" by auto
  then show ?thesis by (auto simp: digitChar_def)
qed

lemma decimal_no_slash: "CHR ''/'' \<notin> set (decimal n)"
proof (induction n rule: decimal.induct)
  case (1 n)
  show ?case
  proof (cases "n < 10")
    case True
    then show ?thesis using digitChar_not_slash[of n] by (simp add: decimal.simps[of n])
  next
    case False
    have "n mod 10 < 10" by simp
    then have "digitChar (n mod 10) \<noteq> CHR ''/''" by (rule digitChar_not_slash)
    with False 1 show ?thesis by (auto simp add: decimal.simps[of n])
  qed
qed

lemma splitOn_no_sep: "c \<notin> set xs \<Longrightarrow> splitOn c xs = [xs]"
  by (induction xs) auto

lemma split_rootkey:
  "splitOn CHR ''/'' (recordKey (RootKeyRecord i)) =
     [''lsat'', ''proxy'', ''rootkeys'', decimal i]"
  using decimal_no_slash[of i]
  by (simp add: recordKey_def recordPath_def topLevelKey_def etcdKeyDelimeter_def
      splitOn_no_sep)

lemma split_onion:
  "CHR ''/'' \<notin> set sid \<Longrightarrow>
   splitOn CHR ''/'' (recordKey (OnionServiceRecord sid)) =
     [''lsat'', ''proxy'', ''onion'', sid]"
  by (simp add: recordKey_def recordPath_def topLevelKey_def etcdKeyDelimeter_def
      splitOn_no_sep)

lemma key_prefix: "prefix (topLevelKey @ etcdKeyDelimeter) (recordKey r)"
  by (cases r) (simp_all add: recordKey_def recordPath_def)

text \<open>
  C8. The key of every durable record starts with the one top level key followed by the
  delimiter. A root key record has the key \<open>lsat/proxy/rootkeys/<id>\<close> and an onion service
  record the key \<open>lsat/proxy/onion/<service-id>\<close>; split at the delimiter, the key gives
  back its path segments (for an onion service whose id holds no delimiter). The two kinds of
  record never share a key.
\<close>

theorem durable_keys_layout:
  "prefix (topLevelKey @ etcdKeyDelimeter) (recordKey r)
   \<and> recordKey (RootKeyRecord i) = topLevelKey @ ''/rootkeys/'' @ decimal i
   \<and> recordKey (OnionServiceRecord sid) = topLevelKey @ ''/onion/'' @ sid
   \<and> splitOn CHR ''/'' (recordKey (RootKeyRecord i)) =
       [''lsat'', ''proxy'', ''rootkeys'', decimal i]
   \<and> (CHR ''/'' \<notin> set sid \<longrightarrow>
        splitOn CHR ''/'' (recordKey (OnionServiceRecord sid)) =
          [''lsat'', ''proxy'', ''onion'', sid])
   \<and> recordKey (RootKeyRecord i) \<noteq> recordKey (OnionServiceRecord sid)"
proof (intro conjI impI)
  show "prefix (topLevelKey @ etcdKeyDelimeter) (recordKey r)" by (rule key_prefix)
  show "recordKey (RootKeyRecord i) = topLevelKey @ ''/rootkeys/'' @ decimal i"
    by (simp add: recordKey_def recordPath_def etcdKeyDelimeter_def)
  show "recordKey (OnionServiceRecord sid) = topLevelKey @ ''/onion/'' @ sid"
    by (simp add: recordKey_def recordPath_def etcdKeyDelimeter_def)
  show "splitOn CHR ''/'' (recordKey (RootKeyRecord i)) =
       [''lsat'', ''proxy'', ''rootkeys'', decimal i]"
    by (rule split_rootkey)
  show "recordKey (RootKeyRecord i) \<noteq> recordKey (OnionServiceRecord sid)"
    by (simp add: recordKey_def recordPath_def etcdKeyDelimeter_def)
next
  assume "CHR ''/'' \<notin> set sid"
  then show "splitOn CHR ''/'' (recordKey (OnionServiceRecord sid)) =
          [''lsat'', ''proxy'', ''onion'', sid]"
    by (rule split_onion)
qed

theorem durable_keys_layout_witness:
  "CHR ''/'' \<notin> set ''v3''
   \<and> splitOn CHR ''/'' (recordKey (OnionServiceRecord ''v3'')) =
       [''lsat'', ''proxy'', ''onion'', ''v3'']
   \<and> recordKey (OnionServiceRecord ''v3'') = ''lsat/proxy/onion/v3''
   \<and> recordKey (RootKeyRecord 12) = ''lsat/proxy/rootkeys/12''"
proof -
  have a: "CHR ''/'' \<notin> set ''v3''" by simp
  have d: "decimal 12 = ''12''" by (simp add: decimal.simps digitChar_def)
  show ?thesis
    using durable_keys_layout [of "RootKeyRecord 12" 12 "''v3''"] a d
    by (simp add: topLevelKey_def)
qed

end
